theory Spec2Isabelle
  imports Complex_Main "HOL-Library.Sublist"
begin

section \<open>Numbers\<close>


section \<open>Calculator: \<^verbatim>\<open>calculate_costs\<close>\<close>



section \<open>Python strings\<close>

text \<open>
  A \<^verbatim>\<open>str\<close> is a \<^typ>\<open>string\<close>; the model covers ASCII text. \<^verbatim>\<open>str.lower\<close> maps
  \<open>A\<close>..\<open>Z\<close> to \<open>a\<close>..\<open>z\<close>; the whitespace of \<^verbatim>\<open>str.strip\<close> and \<^verbatim>\<open>str.split\<close> is
  the ASCII whitespace of \<^verbatim>\<open>str.isspace\<close>: codes 9 to 13 and 28 to 32.
\<close>

definition lower_char :: "char \<Rightarrow> char" where
  "lower_char c =
     (case map_of (zip ''ABCDEFGHIJKLMNOPQRSTUVWXYZ'' ''abcdefghijklmnopqrstuvwxyz'') c of
        Some l \<Rightarrow> l
      | None \<Rightarrow> c)"

definition lower :: "string \<Rightarrow> string" where
  "lower s = map lower_char s"

definition is_space :: "char \<Rightarrow> bool" where
  "is_space c = (let n = of_char c :: nat in (9 \<le> n \<and> n \<le> 13) \<or> (28 \<le> n \<and> n \<le> 32))"

definition strip :: "string \<Rightarrow> string" where
  "strip s = rev (dropWhile is_space (rev (dropWhile is_space s)))"

text \<open>\<^verbatim>\<open>s.startswith(p)\<close>, \<^verbatim>\<open>s.endswith(p)\<close> and \<^verbatim>\<open>sub in s\<close>.\<close>

fun startswith :: "string \<Rightarrow> string \<Rightarrow> bool" where
  "startswith s [] = True"
| "startswith [] (p # ps) = False"
| "startswith (c # cs) (p # ps) = (c = p \<and> startswith cs ps)"

definition endswith :: "string \<Rightarrow> string \<Rightarrow> bool" where
  "endswith s p = startswith (rev s) (rev p)"

fun contains :: "string \<Rightarrow> string \<Rightarrow> bool" where
  "contains sub [] = (sub = [])"
| "contains sub (c # cs) = (startswith (c # cs) sub \<or> contains sub cs)"

text \<open>\<^verbatim>\<open>s.replace(a, b)\<close> for one-character \<open>a\<close> and \<open>b\<close>.\<close>

definition replace_char :: "char \<Rightarrow> char \<Rightarrow> string \<Rightarrow> string" where
  "replace_char a b s = map (\<lambda>c. if c = a then b else c) s"

text \<open>
  \<^verbatim>\<open>s.split()\<close>: the maximal runs of non-whitespace characters, in order. The first
  argument of \<open>split_from\<close> is the word being read.
\<close>

fun split_from :: "string \<Rightarrow> string \<Rightarrow> string list" where
  "split_from cur [] = (if cur = [] then [] else [cur])"
| "split_from cur (c # cs) =
     (if is_space c then (if cur = [] then split_from [] cs else cur # split_from [] cs)
      else split_from (cur @ [c]) cs)"

definition split_ws :: "string \<Rightarrow> string list" where
  "split_ws s = split_from [] s"

fun join :: "string \<Rightarrow> string list \<Rightarrow> string" where
  "join sep [] = []"
| "join sep [w] = w"
| "join sep (w # v # ws) = w @ sep @ join sep (v # ws)"

section \<open>Classifier: \<^verbatim>\<open>determine_duty_category\<close>\<close>

text \<open>The exceptions a call can end with.\<close>

datatype py_exn =
  KeyError string
| DbError
| FloatValueError
| NotConfigured

text \<open>
  \<^verbatim>\<open>order.index(d)\<close>: the position of the first occurrence; \<open>None\<close> stands for the
  \<^verbatim>\<open>ValueError\<close> of a value that does not occur.
\<close>

fun index_of :: "'a list \<Rightarrow> 'a \<Rightarrow> nat option" where
  "index_of [] d = None"
| "index_of (x # xs) d = (if x = d then Some 0 else map_option Suc (index_of xs d))"

definition order :: "string list" where
  "order = [''light'', ''medium'', ''heavy'']"

definition bump :: "string \<Rightarrow> int \<Rightarrow> string" where
  "bump d steps =
     (let idx = (case index_of order d of Some i \<Rightarrow> int i | None \<Rightarrow> 0)
      in order ! nat (min (int (length order) - 1) (max 0 (idx + steps))))"

text \<open>
  The \<^verbatim>\<open>dimensions\<close> dictionary maps field names to numbers. \<open>has_keys\<close> is
  \<^verbatim>\<open>all(k in dimensions for k in ks)\<close>, and \<open>getitem\<close> is \<^verbatim>\<open>dimensions[k]\<close>, which
  raises \<^verbatim>\<open>KeyError\<close> on an absent key.
\<close>

type_synonym dims = "string \<rightharpoonup> real"

definition has_keys :: "dims \<Rightarrow> string list \<Rightarrow> bool" where
  "has_keys dimensions ks = list_all (\<lambda>k. dimensions k \<noteq> None) ks"

definition getitem :: "dims \<Rightarrow> string \<Rightarrow> py_exn + real" where
  "getitem dimensions k = (case dimensions k of None \<Rightarrow> Inl (KeyError k) | Some v \<Rightarrow> Inr v)"

text \<open>
  The two geometric branches. \<open>None\<close> is the \<^verbatim>\<open>base is None\<close> left when neither
  branch is taken.
\<close>

definition geometry_base :: "string \<Rightarrow> dims \<Rightarrow> string option" where
  "geometry_base shape dimensions =
     (if shape = ''rectangular'' \<and> has_keys dimensions [''length'', ''breadth'', ''height'']
      then
        (let length' = the (dimensions ''length'');
             breadth = the (dimensions ''breadth'');
             height = the (dimensions ''height'');
             max_dim = max length' (max breadth height)
         in Some (if max_dim \<le> 750 then ''light''
                  else if max_dim \<le> 1500 then ''medium''
                  else ''heavy''))
      else if shape = ''round'' \<and> has_keys dimensions [''diameter'', ''length''] then
        (let diameter = the (dimensions ''diameter'');
             length' = the (dimensions ''length'')
         in Some (if diameter \<le> 100 \<and> length' \<le> 300 then ''light''
                  else if diameter \<le> 300 \<and> length' \<le> 1200 then ''medium''
                  else ''heavy''))
      else None)"

text \<open>The volume of the fallback; the dictionary is read left to right.\<close>

definition fallback_volume :: "string \<Rightarrow> dims \<Rightarrow> py_exn + real" where
  "fallback_volume shape dimensions =
     (if shape = ''round'' then
        (case getitem dimensions ''diameter'' of
           Inl e \<Rightarrow> Inl e
         | Inr diameter \<Rightarrow>
             (case getitem dimensions ''length'' of
                Inl e \<Rightarrow> Inl e
              | Inr length' \<Rightarrow> Inr (3.14159 * (diameter / 2) ^ 2 * length')))
      else
        (case getitem dimensions ''length'' of
           Inl e \<Rightarrow> Inl e
         | Inr length' \<Rightarrow>
             (case getitem dimensions ''breadth'' of
                Inl e \<Rightarrow> Inl e
              | Inr breadth \<Rightarrow>
                  (case getitem dimensions ''height'' of
                     Inl e \<Rightarrow> Inl e
                   | Inr height \<Rightarrow> Inr (length' * breadth * height)))))"

definition material_factor :: "string \<Rightarrow> real" where
  "material_factor mat =
     (case map_of [(''aluminium'', 1.0), (''steel'', 3.0), (''titanium'', 1.7)] mat of
        Some f \<Rightarrow> f
      | None \<Rightarrow> 1.0)"

definition operation_factor :: "string \<Rightarrow> real" where
  "operation_factor op =
     (case map_of [(''turning'', 1.0), (''milling'', 1.5), (''drilling'', 0.8),
                   (''grinding'', 1.2), (''boring'', 1.3), (''heat_treatment'', 2.0),
                   (''welding'', 1.8), (''surface_treatment'', 1.0)] op of
        Some f \<Rightarrow> f
      | None \<Rightarrow> 1.0)"

definition fallback_base :: "string \<Rightarrow> dims \<Rightarrow> string \<Rightarrow> string \<Rightarrow> py_exn + string" where
  "fallback_base shape dimensions mat op =
     (case fallback_volume shape dimensions of
        Inl e \<Rightarrow> Inl e
      | Inr volume \<Rightarrow>
          (let score = (volume / 1000000) * material_factor mat * operation_factor op
           in Inr (if score < 5 then ''light''
                   else if score < 20 then ''medium''
                   else ''heavy'')))"

text \<open>The material adjustment and the operation adjustment that follow the base.\<close>

definition material_adjustment :: "string \<Rightarrow> string \<Rightarrow> string" where
  "material_adjustment mat base =
     (if mat = ''steel'' \<or> mat = ''titanium'' then
        (let base1 = bump base (if base = ''light'' then 1 else 0)
         in if mat = ''titanium'' \<and> base1 = ''medium'' then bump base1 1 else base1)
      else base)"

definition operation_adjustment :: "string \<Rightarrow> string \<Rightarrow> string" where
  "operation_adjustment op base =
     (if op = ''heat_treatment'' \<or> op = ''welding'' then bump base 1 else base)"

definition determine_duty_category ::
    "string \<Rightarrow> dims \<Rightarrow> string \<Rightarrow> string \<Rightarrow> py_exn + string" where
  "determine_duty_category shape dimensions material operation =
     (let op = lower (strip operation);
          mat = lower (strip material)
      in case (case geometry_base shape dimensions of
                 Some base \<Rightarrow> Inr base
               | None \<Rightarrow> fallback_base shape dimensions mat op) of
           Inl e \<Rightarrow> Inl e
         | Inr base \<Rightarrow> Inr (operation_adjustment op (material_adjustment mat base)))"

text \<open>The position of a duty in \<open>light < medium < heavy\<close>.\<close>

definition duty_rank :: "string \<Rightarrow> nat" where
  "duty_rank d = (case index_of order d of Some i \<Rightarrow> i | None \<Rightarrow> 0)"

section \<open>Resolver: \<^verbatim>\<open>determine_machine_category\<close> and \<^verbatim>\<open>get_wage_rate\<close>\<close>

definition determine_machine_category :: "string \<Rightarrow> string" where
  "determine_machine_category machine_name =
     (let name_lower = lower machine_name
      in if contains ''cnc'' name_lower \<or> contains ''precision'' name_lower then
           (if contains ''5'' name_lower \<or> contains ''five'' name_lower
               \<or> contains ''5 axis'' name_lower \<or> contains ''5-axis'' name_lower
            then ''cnc_5axis''
            else ''cnc_3axis'')
         else if contains ''spm'' name_lower \<or> contains ''special'' name_lower then ''spm''
         else ''conventional'')"

definition CONVENTIONAL_OPERATOR_MONTHLY_WAGE :: real where
  "CONVENTIONAL_OPERATOR_MONTHLY_WAGE = 15000"

definition CNC_OPERATOR_MONTHLY_WAGE :: real where
  "CNC_OPERATOR_MONTHLY_WAGE = 20000"

definition HOURS_PER_MONTH_FOR_WAGE :: real where
  "HOURS_PER_MONTH_FOR_WAGE = 200"

definition get_wage_rate :: "string \<Rightarrow> real" where
  "get_wage_rate machine_name =
     (let category = determine_machine_category machine_name;
          monthly = (if category = ''conventional'' then CONVENTIONAL_OPERATOR_MONTHLY_WAGE
                     else CNC_OPERATOR_MONTHLY_WAGE)
      in monthly / HOURS_PER_MONTH_FOR_WAGE)"

section \<open>Reference data\<close>

text \<open>
  The tables of \<^verbatim>\<open>models.py\<close> that the rate lookup reads, each a list of rows in the
  order the database returns them. The \<open>id\<close> columns are primary keys. The informational
  columns of \<^verbatim>\<open>mhr\<close> (investment cost, power rating and charges, available and
  utilised hours), which the service never reads, are left out.
\<close>

record operation_type_row =
  OperationType_id :: int
  OperationType_operation_name :: string

record duty_row =
  Duty_id :: int
  Duty_name :: string

record machine_row =
  Machine_id :: int
  Machine_name :: string
  Machine_op_id :: "int option"

record mhr_row =
  MHR_id :: int
  MHR_op_type_id :: "int option"
  MHR_duty_id :: "int option"
  MHR_machine_id :: "int option"
  MHR_machine_hr_rate :: "string option"

text \<open>
  The four queries of \<^verbatim>\<open>get_machine_hour_rate\<close>. A query can raise; \<open>failing\<close> tells
  which ones do.
\<close>

datatype db_query = QueryOperationType | QueryDuties | QueryMHR | QueryCandidates

record db =
  operation_type_table :: "operation_type_row list"
  duties_table :: "duty_row list"
  machines_table :: "machine_row list"
  mhr_table :: "mhr_row list"
  failing :: "db_query \<Rightarrow> bool"

definition run_query :: "db \<Rightarrow> db_query \<Rightarrow> 'a \<Rightarrow> py_exn + 'a" where
  "run_query db q rows = (if failing db q then Inl DbError else Inr rows)"

text \<open>
  The relationships \<^verbatim>\<open>rec.operation_type\<close>, \<^verbatim>\<open>rec.duty\<close> and \<^verbatim>\<open>rec.machine\<close> of an
  MHR row: the row its foreign key points to, \<open>None\<close> when the key is NULL or dangling.
\<close>

definition operation_type_of :: "db \<Rightarrow> mhr_row \<Rightarrow> operation_type_row option" where
  "operation_type_of db r =
     (case MHR_op_type_id r of
        None \<Rightarrow> None
      | Some i \<Rightarrow> find (\<lambda>ot. OperationType_id ot = i) (operation_type_table db))"

definition duty_of :: "db \<Rightarrow> mhr_row \<Rightarrow> duty_row option" where
  "duty_of db r =
     (case MHR_duty_id r of
        None \<Rightarrow> None
      | Some i \<Rightarrow> find (\<lambda>du. Duty_id du = i) (duties_table db))"

definition machine_of :: "db \<Rightarrow> mhr_row \<Rightarrow> machine_row option" where
  "machine_of db r =
     (case MHR_machine_id r of
        None \<Rightarrow> None
      | Some i \<Rightarrow> find (\<lambda>mc. Machine_id mc = i) (machines_table db))"

text \<open>SQL \<^verbatim>\<open>trim\<close> removes spaces at both ends; SQL \<^verbatim>\<open>lower\<close> lower-cases.\<close>

definition sql_trim :: "string \<Rightarrow> string" where
  "sql_trim s = rev (dropWhile (\<lambda>c. c = CHR '' '') (rev (dropWhile (\<lambda>c. c = CHR '' '') s)))"

definition sql_lower :: "string \<Rightarrow> string" where
  "sql_lower s = lower s"

section \<open>Resolver: \<^verbatim>\<open>get_machine_hour_rate\<close>\<close>

text \<open>The local \<^verbatim>\<open>_norm\<close>.\<close>

definition norm_str :: "string option \<Rightarrow> string" where
  "norm_str s =
     (case s of
        None \<Rightarrow> []
      | Some s' \<Rightarrow>
          (let out = lower (strip s');
               out = replace_char (CHR ''_'') (CHR '' '') out;
               out = replace_char (CHR ''-'') (CHR '' '') out;
               out = join '' '' (split_ws out)
           in if endswith out '' duty'' then take (length out - length '' duty'') out
              else out))"

text \<open>The local \<^verbatim>\<open>_resolve_duty_id\<close>; a failing query is caught and gives \<open>None\<close>.\<close>

definition resolve_duty_id :: "db \<Rightarrow> string \<Rightarrow> int option" where
  "resolve_duty_id db d =
     (let d_norm = norm_str (Some d)
      in if d_norm = [] then None
         else (case run_query db QueryDuties (duties_table db) of
                 Inl e \<Rightarrow> None
               | Inr duties \<Rightarrow>
                   map_option Duty_id (find (\<lambda>du. norm_str (Some (Duty_name du)) = d_norm) duties)))"

text \<open>
  The first tier, the body of the first \<^verbatim>\<open>try\<close>. \<open>Inl e\<close> is an exception raised in the
  body, \<open>Inr (Some v)\<close> is \<^verbatim>\<open>return v\<close>, and \<open>Inr None\<close> is the body running to its end.
  The text of \<open>machine_hr_rate\<close> goes through \<^verbatim>\<open>float\<close>, the parameter \<open>float_of_str\<close>,
  where \<open>None\<close> is its \<^verbatim>\<open>ValueError\<close>.
\<close>

definition resolve_op_id :: "db \<Rightarrow> string \<Rightarrow> int option \<Rightarrow> py_exn + int option" where
  "resolve_op_id db operation op_type_id =
     (if op_type_id = None \<and> operation \<noteq> [] then
        (case run_query db QueryOperationType
                (find (\<lambda>ot. sql_lower (sql_trim (OperationType_operation_name ot)) = lower (strip operation))
                   (operation_type_table db)) of
           Inl e \<Rightarrow> Inl e
         | Inr op_row \<Rightarrow> Inr (map_option OperationType_id op_row))
      else Inr op_type_id)"

definition query_mhr :: "db \<Rightarrow> int \<Rightarrow> int \<Rightarrow> int \<Rightarrow> py_exn + mhr_row option" where
  "query_mhr db op_id du_id m_id =
     run_query db QueryMHR
       (find (\<lambda>r. MHR_op_type_id r = Some op_id \<and> MHR_duty_id r = Some du_id
                  \<and> MHR_machine_id r = Some m_id)
          (mhr_table db))"

definition lookup_by_ids ::
    "(string \<Rightarrow> real option) \<Rightarrow> db \<Rightarrow> string \<Rightarrow> string \<Rightarrow> int option \<Rightarrow> int option
       \<Rightarrow> int option \<Rightarrow> py_exn + real option" where
  "lookup_by_ids float_of_str db operation duty machine_id op_type_id duty_id =
     (case resolve_op_id db operation op_type_id of
        Inl e \<Rightarrow> Inl e
      | Inr op_id \<Rightarrow>
          (let du_id = (if duty_id \<noteq> None then duty_id else resolve_duty_id db duty);
               m_id = machine_id
           in case (op_id, du_id, m_id) of
                (Some op_id', Some du_id', Some m_id') \<Rightarrow>
                  (case query_mhr db op_id' du_id' m_id' of
                     Inl e \<Rightarrow> Inl e
                   | Inr None \<Rightarrow> Inr None
                   | Inr (Some rec) \<Rightarrow>
                       (case MHR_machine_hr_rate rec of
                          None \<Rightarrow> Inr None
                        | Some txt \<Rightarrow>
                            (case float_of_str txt of
                               None \<Rightarrow> Inl FloatValueError
                             | Some v \<Rightarrow> Inr (Some v))))
              | _ \<Rightarrow> Inr None))"

text \<open>
  The second tier. \<open>fuzzy_candidates\<close> is its SQL query: the MHR rows that join to an
  operation type, a duty and a machine, and whose operation name, trimmed and lower-cased by
  the database, equals the request's operation, stripped and lower-cased.
\<close>

definition fuzzy_candidates :: "db \<Rightarrow> string \<Rightarrow> mhr_row list" where
  "fuzzy_candidates db operation =
     filter (\<lambda>r. case operation_type_of db r of
                   None \<Rightarrow> False
                 | Some ot \<Rightarrow>
                     duty_of db r \<noteq> None \<and> machine_of db r \<noteq> None
                     \<and> sql_lower (sql_trim (OperationType_operation_name ot)) = lower (strip operation))
       (mhr_table db)"

definition rec_op :: "db \<Rightarrow> mhr_row \<Rightarrow> string" where
  "rec_op db r = norm_str (map_option OperationType_operation_name (operation_type_of db r))"

definition rec_duty :: "db \<Rightarrow> mhr_row \<Rightarrow> string" where
  "rec_duty db r = norm_str (map_option Duty_name (duty_of db r))"

definition rec_machine :: "db \<Rightarrow> mhr_row \<Rightarrow> string" where
  "rec_machine db r = norm_str (map_option Machine_name (machine_of db r))"

text \<open>The score of one row: 2 = exact, 1 = substring match, 0 = mismatch.\<close>

definition match_score :: "string \<Rightarrow> string \<Rightarrow> int" where
  "match_score rec_machine' machine_norm =
     (if rec_machine' = machine_norm then 2
      else if rec_machine' \<noteq> [] \<and> machine_norm \<noteq> []
              \<and> (contains rec_machine' machine_norm \<or> contains machine_norm rec_machine')
      then 1
      else 0)"

text \<open>
  The \<^verbatim>\<open>for rec in candidates\<close> loop on the state \<open>(best, best_score)\<close>: a row of another
  operation or duty is skipped (\<^verbatim>\<open>continue\<close>), and the loop ends at once when the best
  score is 2 (\<^verbatim>\<open>break\<close>).
\<close>

fun scan_candidates ::
    "db \<Rightarrow> string \<Rightarrow> string \<Rightarrow> string \<Rightarrow> mhr_row list \<Rightarrow> mhr_row option \<times> int
       \<Rightarrow> mhr_row option \<times> int" where
  "scan_candidates db op_norm duty_norm machine_norm [] (best, best_score) = (best, best_score)"
| "scan_candidates db op_norm duty_norm machine_norm (rec # rest) (best, best_score) =
     (if rec_op db rec \<noteq> op_norm \<or> rec_duty db rec \<noteq> duty_norm then
        scan_candidates db op_norm duty_norm machine_norm rest (best, best_score)
      else
        (let score = match_score (rec_machine db rec) machine_norm;
             st = (if score > best_score then (Some rec, score) else (best, best_score))
         in if snd st = 2 then st
            else scan_candidates db op_norm duty_norm machine_norm rest st))"

text \<open>The rows of \<open>candidates\<close> that the loop scores: those it does not skip.\<close>

definition scored_rows :: "db \<Rightarrow> string \<Rightarrow> string \<Rightarrow> mhr_row list \<Rightarrow> mhr_row list" where
  "scored_rows db op_norm duty_norm candidates =
     filter (\<lambda>r. rec_op db r = op_norm \<and> rec_duty db r = duty_norm) candidates"

definition lookup_fuzzy ::
    "(string \<Rightarrow> real option) \<Rightarrow> db \<Rightarrow> string \<Rightarrow> string \<Rightarrow> string \<Rightarrow> py_exn + real option" where
  "lookup_fuzzy float_of_str db operation duty machine_name =
     (let op_norm = norm_str (Some operation);
          duty_norm = norm_str (Some duty);
          machine_norm = norm_str (Some machine_name)
      in case run_query db QueryCandidates (fuzzy_candidates db operation) of
           Inl e \<Rightarrow> Inl e
         | Inr candidates \<Rightarrow>
             (case fst (scan_candidates db op_norm duty_norm machine_norm candidates (None, - 1)) of
                None \<Rightarrow> Inr None
              | Some best \<Rightarrow>
                  (case MHR_machine_hr_rate best of
                     None \<Rightarrow> Inr None
                   | Some txt \<Rightarrow> Inr (float_of_str txt))))"

text \<open>\<^verbatim>\<open>try: ... except Exception: pass\<close> around a tier.\<close>

definition absorb :: "py_exn + 'a option \<Rightarrow> 'a option" where
  "absorb body = (case body of Inl e \<Rightarrow> None | Inr v \<Rightarrow> v)"

definition get_machine_hour_rate ::
    "(string \<Rightarrow> real option) \<Rightarrow> db \<Rightarrow> string \<Rightarrow> string \<Rightarrow> string \<Rightarrow> int option \<Rightarrow> int option
       \<Rightarrow> int option \<Rightarrow> py_exn + real" where
  "get_machine_hour_rate float_of_str db operation duty machine_name machine_id op_type_id duty_id =
     (case absorb (lookup_by_ids float_of_str db operation duty machine_id op_type_id duty_id) of
        Some v \<Rightarrow> Inr v
      | None \<Rightarrow>
          (case absorb (lookup_fuzzy float_of_str db operation duty machine_name) of
             Some v \<Rightarrow> Inr v
           | None \<Rightarrow> Inl NotConfigured))"

text \<open>
  A reading of \<^verbatim>\<open>float\<close> for the examples: on a non-empty string of decimal digits it is
  the number written, as \<^verbatim>\<open>float\<close> gives; other strings are not used in the examples.
\<close>

fun digits_value :: "string \<Rightarrow> nat \<Rightarrow> nat option" where
  "digits_value [] acc = Some acc"
| "digits_value (c # cs) acc =
     (let n = of_char c :: nat
      in if 48 \<le> n \<and> n \<le> 57 then digits_value cs (10 * acc + (n - 48)) else None)"

definition digits_float :: "string \<Rightarrow> real option" where
  "digits_float s = (if s = [] then None else map_option real (digits_value s 0))"

section \<open>Example reference data\<close>

text \<open>
  One MHR row for (turning, medium, "CNC Lathe"), and a second machine
  "CNC Lathe - 3 Axis" that has no MHR row.
\<close>

definition lathe_db :: db where
  "lathe_db =
     \<lparr> operation_type_table =
         [\<lparr> OperationType_id = 1, OperationType_operation_name = ''turning'' \<rparr>],
       duties_table = [\<lparr> Duty_id = 1, Duty_name = ''medium'' \<rparr>],
       machines_table =
         [\<lparr> Machine_id = 1, Machine_name = ''CNC Lathe'', Machine_op_id = Some 1 \<rparr>,
          \<lparr> Machine_id = 2, Machine_name = ''CNC Lathe - 3 Axis'', Machine_op_id = Some 1 \<rparr>],
       mhr_table =
         [\<lparr> MHR_id = 1, MHR_op_type_id = Some 1, MHR_duty_id = Some 1, MHR_machine_id = Some 1,
            MHR_machine_hr_rate = Some ''450'' \<rparr>],
       failing = (\<lambda>q. False) \<rparr>"

text \<open>The same data with the rate of its MHR row NULL.\<close>

definition null_rate_db :: db where
  "null_rate_db =
     lathe_db \<lparr> mhr_table :=
         [\<lparr> MHR_id = 1, MHR_op_type_id = Some 1, MHR_duty_id = Some 1, MHR_machine_id = Some 1,
            MHR_machine_hr_rate = None \<rparr>] \<rparr>"

text \<open>The lathe data with a second MHR row for the same (operation, duty, machine).\<close>

definition duplicate_db :: db where
  "duplicate_db =
     lathe_db \<lparr> mhr_table :=
         [\<lparr> MHR_id = 1, MHR_op_type_id = Some 1, MHR_duty_id = Some 1, MHR_machine_id = Some 1,
            MHR_machine_hr_rate = Some ''450'' \<rparr>,
          \<lparr> MHR_id = 2, MHR_op_type_id = Some 1, MHR_duty_id = Some 1, MHR_machine_id = Some 1,
            MHR_machine_hr_rate = Some ''999'' \<rparr>] \<rparr>"

text \<open>The same data with every query failing, and with the MHR query alone failing.\<close>

definition failing_db :: db where
  "failing_db = lathe_db \<lparr> failing := (\<lambda>q. True) \<rparr>"

definition mhr_failing_db :: db where
  "mhr_failing_db = lathe_db \<lparr> failing := (\<lambda>q. q = QueryMHR) \<rparr>"

text \<open>Two MHR rows for (turning, medium): the first for a machine named "-".\<close>

definition dash_db :: db where
  "dash_db =
     \<lparr> operation_type_table =
         [\<lparr> OperationType_id = 1, OperationType_operation_name = ''turning'' \<rparr>],
       duties_table = [\<lparr> Duty_id = 1, Duty_name = ''medium'' \<rparr>],
       machines_table =
         [\<lparr> Machine_id = 1, Machine_name = ''-'', Machine_op_id = Some 1 \<rparr>,
          \<lparr> Machine_id = 2, Machine_name = ''CNC Lathe'', Machine_op_id = Some 1 \<rparr>],
       mhr_table =
         [\<lparr> MHR_id = 1, MHR_op_type_id = Some 1, MHR_duty_id = Some 1, MHR_machine_id = Some 1,
            MHR_machine_hr_rate = Some ''100'' \<rparr>,
          \<lparr> MHR_id = 2, MHR_op_type_id = Some 1, MHR_duty_id = Some 1, MHR_machine_id = Some 2,
            MHR_machine_hr_rate = Some ''450'' \<rparr>],
       failing = (\<lambda>q. False) \<rparr>"


section \<open>Properties of the calculator\<close>




section \<open>Properties of the string operations\<close>

lemma startswith_prefix: "startswith s p = prefix p s"
  by (induction s p rule: startswith.induct) auto

lemma contains_sublist: "contains sub s = sublist sub s"
proof (induction s)
  case Nil
  show ?case by simp
next
  case (Cons c cs)
  then show ?case
    by (cases sub) (simp_all add: startswith_prefix sublist_Cons_right)
qed

section \<open>Properties of the machine category\<close>

text \<open>
  C9. For every machine name, with \<open>l\<close> the lower-cased name, \<open>determine_machine_category\<close>
  returns cnc_5axis when \<open>l\<close> contains "cnc" or "precision" and also one of "5", "five",
  "5 axis", "5-axis"; cnc_3axis when it contains "cnc" or "precision" and none of those; spm
  when it contains neither but contains "spm" or "special"; conventional otherwise.
  Containment is contiguous-substring containment (\<open>sublist\<close>). "CNC Lathe - 5 Axis" is
  cnc_5axis, "Conventional Drill Press" is conventional, "Special Purpose Mill" is spm.
\<close>

theorem determine_machine_category_spec:
  fixes machine_name :: string
  defines "l \<equiv> lower machine_name"
  shows "determine_machine_category machine_name =
           (if sublist ''cnc'' l \<or> sublist ''precision'' l then
              (if sublist ''5'' l \<or> sublist ''five'' l \<or> sublist ''5 axis'' l
                  \<or> sublist ''5-axis'' l
               then ''cnc_5axis'' else ''cnc_3axis'')
            else if sublist ''spm'' l \<or> sublist ''special'' l then ''spm''
            else ''conventional'')
       \<and> determine_machine_category ''CNC Lathe - 5 Axis'' = ''cnc_5axis''
       \<and> determine_machine_category ''Conventional Drill Press'' = ''conventional''
       \<and> determine_machine_category ''Special Purpose Mill'' = ''spm''"
proof -
  have general: "determine_machine_category machine_name =
           (if sublist ''cnc'' l \<or> sublist ''precision'' l then
              (if sublist ''5'' l \<or> sublist ''five'' l \<or> sublist ''5 axis'' l
                  \<or> sublist ''5-axis'' l
               then ''cnc_5axis'' else ''cnc_3axis'')
            else if sublist ''spm'' l \<or> sublist ''special'' l then ''spm''
            else ''conventional'')"
    unfolding determine_machine_category_def Let_def contains_sublist l_def ..
  have a: "determine_machine_category ''CNC Lathe - 5 Axis'' = ''cnc_5axis''"
    by (simp add: determine_machine_category_def lower_def lower_char_def)
  have b: "determine_machine_category ''Conventional Drill Press'' = ''conventional''"
    by (simp add: determine_machine_category_def lower_def lower_char_def)
  have c: "determine_machine_category ''Special Purpose Mill'' = ''spm''"
    by (simp add: determine_machine_category_def lower_def lower_char_def)
  from general a b c show ?thesis by blast
qed

section \<open>Properties of the classifier\<close>

lemma in_order_cases:
  "b \<in> set order \<longleftrightarrow> b = ''light'' \<or> b = ''medium'' \<or> b = ''heavy''"
  by (auto simp add: order_def)

lemma bump_values:
  "bump ''light'' 0 = ''light''" "bump ''medium'' 0 = ''medium''" "bump ''heavy'' 0 = ''heavy''"
  "bump ''light'' 1 = ''medium''" "bump ''medium'' 1 = ''heavy''" "bump ''heavy'' 1 = ''heavy''"
  by (simp_all add: bump_def order_def)

lemma duty_rank_values:
  "duty_rank ''light'' = 0" "duty_rank ''medium'' = 1" "duty_rank ''heavy'' = 2"
  by (simp_all add: duty_rank_def order_def)

lemma material_adjustment_values:
  assumes "base \<in> set order"
  shows "material_adjustment mat base =
           (if mat = ''steel'' then (if base = ''light'' then ''medium'' else base)
            else if mat = ''titanium'' then ''heavy''
            else base)"
  using assms unfolding in_order_cases
  by (elim disjE) (simp_all add: material_adjustment_def bump_values)

lemma operation_adjustment_values:
  assumes "base \<in> set order"
  shows "operation_adjustment op base =
           (if op = ''heat_treatment'' \<or> op = ''welding''
            then (if base = ''light'' then ''medium'' else ''heavy'')
            else base)"
  using assms unfolding in_order_cases
  by (elim disjE) (simp_all add: operation_adjustment_def bump_values)

lemma material_adjustment_in_order:
  "base \<in> set order \<Longrightarrow> material_adjustment mat base \<in> set order"
  by (simp add: material_adjustment_values) (simp add: in_order_cases)

lemma material_adjustment_mono:
  assumes "a \<in> set order" "b \<in> set order" "duty_rank a \<le> duty_rank b"
  shows "duty_rank (material_adjustment mat a) \<le> duty_rank (material_adjustment mat b)"
  using assms unfolding material_adjustment_values [OF assms(1)] material_adjustment_values [OF assms(2)] in_order_cases
  by (elim disjE) (simp_all add: duty_rank_values)

lemma operation_adjustment_mono:
  assumes "a \<in> set order" "b \<in> set order" "duty_rank a \<le> duty_rank b"
  shows "duty_rank (operation_adjustment op a) \<le> duty_rank (operation_adjustment op b)"
  using assms unfolding operation_adjustment_values [OF assms(1)] operation_adjustment_values [OF assms(2)] in_order_cases
  by (elim disjE) (simp_all add: duty_rank_values)

lemma adjustments_mono:
  assumes "a \<in> set order" "b \<in> set order" "duty_rank a \<le> duty_rank b"
  shows "duty_rank (operation_adjustment op (material_adjustment mat a))
           \<le> duty_rank (operation_adjustment op (material_adjustment mat b))"
  using assms
  by (intro operation_adjustment_mono material_adjustment_mono material_adjustment_in_order)

lemma geometry_base_in_order:
  "geometry_base shape dimensions = Some base \<Longrightarrow> base \<in> set order"
  by (auto simp add: geometry_base_def Let_def order_def split: if_splits)

lemma determine_geometry:
  assumes "geometry_base shape dimensions = Some base"
  shows "determine_duty_category shape dimensions material operation =
           Inr (operation_adjustment (lower (strip operation))
                  (material_adjustment (lower (strip material)) base))"
  using assms by (simp add: determine_duty_category_def Let_def)

lemma geometry_base_rectangular:
  assumes "has_keys d [''length'', ''breadth'', ''height'']"
  shows "geometry_base ''rectangular'' d =
           Some (let m = max (the (d ''length'')) (max (the (d ''breadth'')) (the (d ''height'')))
                 in if m \<le> 750 then ''light'' else if m \<le> 1500 then ''medium'' else ''heavy'')"
  using assms by (simp add: geometry_base_def Let_def)

lemma geometry_base_round:
  assumes "has_keys d [''diameter'', ''length'']"
  shows "geometry_base ''round'' d =
           Some (if the (d ''diameter'') \<le> 100 \<and> the (d ''length'') \<le> 300 then ''light''
                 else if the (d ''diameter'') \<le> 300 \<and> the (d ''length'') \<le> 1200 then ''medium''
                 else ''heavy'')"
  using assms by (simp add: geometry_base_def Let_def)

lemma rectangular_base_mono:
  assumes "has_keys d1 [''length'', ''breadth'', ''height'']"
    and "has_keys d2 [''length'', ''breadth'', ''height'']"
    and "the (d1 ''length'') \<le> the (d2 ''length'')"
    and "the (d1 ''breadth'') \<le> the (d2 ''breadth'')"
    and "the (d1 ''height'') \<le> the (d2 ''height'')"
  shows "\<exists>b1 b2. geometry_base ''rectangular'' d1 = Some b1
           \<and> geometry_base ''rectangular'' d2 = Some b2
           \<and> duty_rank b1 \<le> duty_rank b2"
proof -
  define m1 where "m1 = max (the (d1 ''length'')) (max (the (d1 ''breadth'')) (the (d1 ''height'')))"
  define m2 where "m2 = max (the (d2 ''length'')) (max (the (d2 ''breadth'')) (the (d2 ''height'')))"
  have le: "m1 \<le> m2"
    unfolding m1_def m2_def using assms(3-5) by linarith
  have b1: "geometry_base ''rectangular'' d1 =
              Some (if m1 \<le> 750 then ''light'' else if m1 \<le> 1500 then ''medium'' else ''heavy'')"
    unfolding geometry_base_rectangular [OF assms(1)] m1_def Let_def ..
  have b2: "geometry_base ''rectangular'' d2 =
              Some (if m2 \<le> 750 then ''light'' else if m2 \<le> 1500 then ''medium'' else ''heavy'')"
    unfolding geometry_base_rectangular [OF assms(2)] m2_def Let_def ..
  from le show ?thesis
    unfolding b1 b2 by (simp add: duty_rank_values)
qed

lemma round_base_mono:
  assumes "has_keys d1 [''diameter'', ''length'']"
    and "has_keys d2 [''diameter'', ''length'']"
    and "the (d1 ''diameter'') \<le> the (d2 ''diameter'')"
    and "the (d1 ''length'') \<le> the (d2 ''length'')"
  shows "\<exists>b1 b2. geometry_base ''round'' d1 = Some b1
           \<and> geometry_base ''round'' d2 = Some b2
           \<and> duty_rank b1 \<le> duty_rank b2"
  using assms(3,4)
  unfolding geometry_base_round [OF assms(1)] geometry_base_round [OF assms(2)]
  by (simp add: duty_rank_values)

lemma geometry_base_None:
  "geometry_base shape dimensions = None \<longleftrightarrow>
     \<not> (shape = ''rectangular'' \<and> has_keys dimensions [''length'', ''breadth'', ''height''])
     \<and> \<not> (shape = ''round'' \<and> has_keys dimensions [''diameter'', ''length''])"
  by (simp add: geometry_base_def Let_def)

lemma determine_fallback:
  assumes "geometry_base shape dimensions = None"
  shows "determine_duty_category shape dimensions material operation =
           (case fallback_base shape dimensions (lower (strip material)) (lower (strip operation)) of
              Inl e \<Rightarrow> Inl e
            | Inr base \<Rightarrow> Inr (operation_adjustment (lower (strip operation))
                              (material_adjustment (lower (strip material)) base)))"
  using assms by (simp add: determine_duty_category_def Let_def)

lemma fallback_volume_box:
  assumes "shape \<noteq> ''round''" and "has_keys dimensions [''length'', ''breadth'', ''height'']"
  shows "fallback_volume shape dimensions =
           Inr (the (dimensions ''length'') * the (dimensions ''breadth'')
                  * the (dimensions ''height''))"
  using assms by (auto simp add: fallback_volume_def getitem_def has_keys_def)

lemma fallback_volume_KeyError:
  assumes "\<not> (shape = ''round'' \<and> has_keys dimensions [''diameter'', ''length''])"
    and "shape = ''round'' \<or> \<not> has_keys dimensions [''length'', ''breadth'', ''height'']"
  shows "\<exists>k. fallback_volume shape dimensions = Inl (KeyError k)"
  using assms
  by (auto simp add: fallback_volume_def getitem_def has_keys_def split: option.splits)

text \<open>
  C1 (as the code has it). When a geometric branch gives the base duty, the material,
  trimmed and lower-cased, adjusts it as follows: for steel or titanium a light base
  becomes medium and a medium or heavy base is left as it is; then, for titanium, a duty
  that is now medium becomes heavy. The adjustment never lowers the duty. In particular a
  medium base with steel stays medium after the material adjustment.
\<close>

theorem material_adjustment_amended:
  assumes "geometry_base shape dimensions = Some base"
  shows "determine_duty_category shape dimensions material operation =
           Inr (operation_adjustment (lower (strip operation))
                  (material_adjustment (lower (strip material)) base))
       \<and> material_adjustment (lower (strip material)) base =
           (let mat = lower (strip material);
                base1 = (if (mat = ''steel'' \<or> mat = ''titanium'') \<and> base = ''light''
                         then ''medium'' else base)
            in if mat = ''titanium'' \<and> base1 = ''medium'' then ''heavy'' else base1)
       \<and> (lower (strip material) = ''steel'' \<and> base = ''medium''
            \<longrightarrow> material_adjustment (lower (strip material)) base = ''medium'')
       \<and> duty_rank base \<le> duty_rank (material_adjustment (lower (strip material)) base)"
proof -
  have ord: "base \<in> set order"
    using assms by (rule geometry_base_in_order)
  have det: "determine_duty_category shape dimensions material operation =
           Inr (operation_adjustment (lower (strip operation))
                  (material_adjustment (lower (strip material)) base))"
    using assms by (rule determine_geometry)
  have val: "material_adjustment (lower (strip material)) base =
           (let mat = lower (strip material);
                base1 = (if (mat = ''steel'' \<or> mat = ''titanium'') \<and> base = ''light''
                         then ''medium'' else base)
            in if mat = ''titanium'' \<and> base1 = ''medium'' then ''heavy'' else base1)"
    using ord unfolding material_adjustment_values [OF ord] in_order_cases Let_def
    by (elim disjE) simp_all
  have med: "lower (strip material) = ''steel'' \<and> base = ''medium''
            \<longrightarrow> material_adjustment (lower (strip material)) base = ''medium''"
    unfolding material_adjustment_values [OF ord] by simp
  have up: "duty_rank base \<le> duty_rank (material_adjustment (lower (strip material)) base)"
    using ord unfolding material_adjustment_values [OF ord] in_order_cases
    by (elim disjE) (simp_all add: duty_rank_values)
  from det val med up show ?thesis by blast
qed

theorem material_adjustment_amended_witness:
  "geometry_base ''rectangular''
       [''length'' \<mapsto> 1000, ''breadth'' \<mapsto> 10, ''height'' \<mapsto> 10] = Some ''medium''
   \<and> determine_duty_category ''rectangular''
       [''length'' \<mapsto> 1000, ''breadth'' \<mapsto> 10, ''height'' \<mapsto> 10] '' Steel '' ''milling''
       = Inr ''medium''"
proof -
  have g: "geometry_base ''rectangular''
       [''length'' \<mapsto> 1000, ''breadth'' \<mapsto> 10, ''height'' \<mapsto> 10] = Some ''medium''"
    by (simp add: geometry_base_def has_keys_def)
  have n: "lower (strip '' Steel '') = ''steel''" "lower (strip ''milling'') = ''milling''"
    by (simp_all add: lower_def lower_char_def strip_def is_space_def)
  from material_adjustment_amended [OF g, of "'' Steel ''" "''milling''"]
  have "determine_duty_category ''rectangular''
       [''length'' \<mapsto> 1000, ''breadth'' \<mapsto> 10, ''height'' \<mapsto> 10] '' Steel '' ''milling''
       = Inr ''medium''"
    by (simp add: n operation_adjustment_def)
  with g show ?thesis by simp
qed

text \<open>
  C1 as stated fails: a part whose largest dimension is 1000 has base medium, and with
  steel the duty after the material adjustment is still medium, not heavy.
\<close>

theorem material_adjustment_counterexample:
  "geometry_base ''rectangular''
       [''length'' \<mapsto> 1000, ''breadth'' \<mapsto> 10, ''height'' \<mapsto> 10] = Some ''medium''
   \<and> lower (strip ''steel'') = ''steel''
   \<and> material_adjustment ''steel'' ''medium'' = ''medium''
   \<and> material_adjustment ''steel'' ''medium'' \<noteq> ''heavy''
   \<and> determine_duty_category ''rectangular''
       [''length'' \<mapsto> 1000, ''breadth'' \<mapsto> 10, ''height'' \<mapsto> 10] ''steel'' ''milling''
       = Inr ''medium''"
  by (simp add: determine_duty_category_def geometry_base_def has_keys_def
      material_adjustment_def operation_adjustment_def bump_def order_def
      lower_def lower_char_def strip_def is_space_def)

text \<open>
  C7. For a fixed material and operation the duty is monotonic in the part's size under
  \<open>light < medium < heavy\<close>: if a rectangular part is no smaller than another in length,
  breadth and height, or a round part no smaller in diameter and length, its duty is not
  lower. Boundaries: a rectangular part whose largest dimension is exactly 750 has base
  light, 750.01 medium, exactly 1500 medium, 1500.01 heavy; a round part of diameter 100 and
  length 300 has base light, and diameter 101 with length 300 has base medium.
\<close>

theorem determine_duty_category_monotone:
  "(has_keys d1 [''length'', ''breadth'', ''height'']
      \<and> has_keys d2 [''length'', ''breadth'', ''height'']
      \<and> the (d1 ''length'') \<le> the (d2 ''length'')
      \<and> the (d1 ''breadth'') \<le> the (d2 ''breadth'')
      \<and> the (d1 ''height'') \<le> the (d2 ''height'')
    \<longrightarrow> (\<exists>r1 r2. determine_duty_category ''rectangular'' d1 material operation = Inr r1
           \<and> determine_duty_category ''rectangular'' d2 material operation = Inr r2
           \<and> r1 \<in> set order \<and> r2 \<in> set order \<and> duty_rank r1 \<le> duty_rank r2))
   \<and> (has_keys d1 [''diameter'', ''length'']
      \<and> has_keys d2 [''diameter'', ''length'']
      \<and> the (d1 ''diameter'') \<le> the (d2 ''diameter'')
      \<and> the (d1 ''length'') \<le> the (d2 ''length'')
    \<longrightarrow> (\<exists>r1 r2. determine_duty_category ''round'' d1 material operation = Inr r1
           \<and> determine_duty_category ''round'' d2 material operation = Inr r2
           \<and> r1 \<in> set order \<and> r2 \<in> set order \<and> duty_rank r1 \<le> duty_rank r2))
   \<and> (max l (max b h) = 750
    \<longrightarrow> geometry_base ''rectangular'' [''length'' \<mapsto> l, ''breadth'' \<mapsto> b, ''height'' \<mapsto> h]
          = Some ''light'')
   \<and> (max l (max b h) = 750.01
    \<longrightarrow> geometry_base ''rectangular'' [''length'' \<mapsto> l, ''breadth'' \<mapsto> b, ''height'' \<mapsto> h]
          = Some ''medium'')
   \<and> (max l (max b h) = 1500
    \<longrightarrow> geometry_base ''rectangular'' [''length'' \<mapsto> l, ''breadth'' \<mapsto> b, ''height'' \<mapsto> h]
          = Some ''medium'')
   \<and> (max l (max b h) = 1500.01
    \<longrightarrow> geometry_base ''rectangular'' [''length'' \<mapsto> l, ''breadth'' \<mapsto> b, ''height'' \<mapsto> h]
          = Some ''heavy'')
   \<and> geometry_base ''round'' [''diameter'' \<mapsto> 100, ''length'' \<mapsto> 300] = Some ''light''
   \<and> geometry_base ''round'' [''diameter'' \<mapsto> 101, ''length'' \<mapsto> 300] = Some ''medium''"
proof -
  have adjusted: "\<exists>r1 r2. determine_duty_category shape d1 material operation = Inr r1
           \<and> determine_duty_category shape d2 material operation = Inr r2
           \<and> r1 \<in> set order \<and> r2 \<in> set order \<and> duty_rank r1 \<le> duty_rank r2"
    if "\<exists>b1 b2. geometry_base shape d1 = Some b1 \<and> geometry_base shape d2 = Some b2
           \<and> duty_rank b1 \<le> duty_rank b2" for shape
  proof -
    from that obtain b1 b2 where g1: "geometry_base shape d1 = Some b1"
      and g2: "geometry_base shape d2 = Some b2" and le: "duty_rank b1 \<le> duty_rank b2"
      by blast
    have o1: "b1 \<in> set order" and o2: "b2 \<in> set order"
      using g1 g2 by (auto dest: geometry_base_in_order)
    have m1: "material_adjustment (lower (strip material)) b1 \<in> set order"
      and m2: "material_adjustment (lower (strip material)) b2 \<in> set order"
      using o1 o2 by (auto intro: material_adjustment_in_order)
    have "operation_adjustment (lower (strip operation))
            (material_adjustment (lower (strip material)) b1) \<in> set order"
      and "operation_adjustment (lower (strip operation))
            (material_adjustment (lower (strip material)) b2) \<in> set order"
      unfolding operation_adjustment_values [OF m1] operation_adjustment_values [OF m2]
      using m1 m2 by (auto simp add: in_order_cases)
    then show ?thesis
      unfolding determine_geometry [OF g1] determine_geometry [OF g2]
      using adjustments_mono [OF o1 o2 le] by blast
  qed
  have rect: "has_keys d1 [''length'', ''breadth'', ''height'']
      \<and> has_keys d2 [''length'', ''breadth'', ''height'']
      \<and> the (d1 ''length'') \<le> the (d2 ''length'')
      \<and> the (d1 ''breadth'') \<le> the (d2 ''breadth'')
      \<and> the (d1 ''height'') \<le> the (d2 ''height'')
    \<longrightarrow> (\<exists>r1 r2. determine_duty_category ''rectangular'' d1 material operation = Inr r1
           \<and> determine_duty_category ''rectangular'' d2 material operation = Inr r2
           \<and> r1 \<in> set order \<and> r2 \<in> set order \<and> duty_rank r1 \<le> duty_rank r2)"
    using adjusted [of "''rectangular''"] rectangular_base_mono [of d1 d2] by blast
  have rnd: "has_keys d1 [''diameter'', ''length'']
      \<and> has_keys d2 [''diameter'', ''length'']
      \<and> the (d1 ''diameter'') \<le> the (d2 ''diameter'')
      \<and> the (d1 ''length'') \<le> the (d2 ''length'')
    \<longrightarrow> (\<exists>r1 r2. determine_duty_category ''round'' d1 material operation = Inr r1
           \<and> determine_duty_category ''round'' d2 material operation = Inr r2
           \<and> r1 \<in> set order \<and> r2 \<in> set order \<and> duty_rank r1 \<le> duty_rank r2)"
    using adjusted [of "''round''"] round_base_mono [of d1 d2] by blast
  have keys: "has_keys [''length'' \<mapsto> l, ''breadth'' \<mapsto> b, ''height'' \<mapsto> h]
                [''length'', ''breadth'', ''height'']"
    by (simp add: has_keys_def)
  define m where "m = max l (max b h)"
  have box: "geometry_base ''rectangular'' [''length'' \<mapsto> l, ''breadth'' \<mapsto> b, ''height'' \<mapsto> h]
      = Some (if m \<le> 750 then ''light'' else if m \<le> 1500 then ''medium'' else ''heavy'')"
    unfolding geometry_base_rectangular [OF keys] Let_def m_def by simp
  have b1: "m = 750
    \<longrightarrow> geometry_base ''rectangular'' [''length'' \<mapsto> l, ''breadth'' \<mapsto> b, ''height'' \<mapsto> h]
          = Some ''light''"
    unfolding box by simp
  have b2: "m = 750.01
    \<longrightarrow> geometry_base ''rectangular'' [''length'' \<mapsto> l, ''breadth'' \<mapsto> b, ''height'' \<mapsto> h]
          = Some ''medium''"
    unfolding box by simp
  have b3: "m = 1500
    \<longrightarrow> geometry_base ''rectangular'' [''length'' \<mapsto> l, ''breadth'' \<mapsto> b, ''height'' \<mapsto> h]
          = Some ''medium''"
    unfolding box by simp
  have b4: "m = 1500.01
    \<longrightarrow> geometry_base ''rectangular'' [''length'' \<mapsto> l, ''breadth'' \<mapsto> b, ''height'' \<mapsto> h]
          = Some ''heavy''"
    unfolding box by simp
  have r1: "geometry_base ''round'' [''diameter'' \<mapsto> 100, ''length'' \<mapsto> 300] = Some ''light''"
    by (simp add: geometry_base_def has_keys_def)
  have r2: "geometry_base ''round'' [''diameter'' \<mapsto> 101, ''length'' \<mapsto> 300] = Some ''medium''"
    by (simp add: geometry_base_def has_keys_def)
  from rect rnd b1 b2 b3 b4 r1 r2 show ?thesis
    unfolding m_def by blast
qed

theorem determine_duty_category_monotone_witness:
  "determine_duty_category ''rectangular''
       [''length'' \<mapsto> 200, ''breadth'' \<mapsto> 10, ''height'' \<mapsto> 10, ''diameter'' \<mapsto> 50]
       ''aluminium'' ''milling'' = Inr ''light''
   \<and> determine_duty_category ''rectangular''
       [''length'' \<mapsto> 800, ''breadth'' \<mapsto> 10, ''height'' \<mapsto> 10, ''diameter'' \<mapsto> 150]
       ''aluminium'' ''milling'' = Inr ''medium''
   \<and> determine_duty_category ''round''
       [''length'' \<mapsto> 200, ''breadth'' \<mapsto> 10, ''height'' \<mapsto> 10, ''diameter'' \<mapsto> 50]
       ''aluminium'' ''milling'' = Inr ''light''
   \<and> determine_duty_category ''round''
       [''length'' \<mapsto> 800, ''breadth'' \<mapsto> 10, ''height'' \<mapsto> 10, ''diameter'' \<mapsto> 150]
       ''aluminium'' ''milling'' = Inr ''medium''
   \<and> duty_rank ''light'' \<le> duty_rank ''medium''
   \<and> geometry_base ''rectangular'' [''length'' \<mapsto> 750, ''breadth'' \<mapsto> 10, ''height'' \<mapsto> 10]
       = Some ''light''
   \<and> geometry_base ''rectangular'' [''length'' \<mapsto> 750.01, ''breadth'' \<mapsto> 10, ''height'' \<mapsto> 10]
       = Some ''medium''
   \<and> geometry_base ''rectangular'' [''length'' \<mapsto> 10, ''breadth'' \<mapsto> 1500, ''height'' \<mapsto> 10]
       = Some ''medium''
   \<and> geometry_base ''rectangular'' [''length'' \<mapsto> 10, ''breadth'' \<mapsto> 10, ''height'' \<mapsto> 1500.01]
       = Some ''heavy''"
proof -
  let ?d1 = "[''length'' \<mapsto> 200, ''breadth'' \<mapsto> 10, ''height'' \<mapsto> 10, ''diameter'' \<mapsto> (50::real)]"
  let ?d2 = "[''length'' \<mapsto> 800, ''breadth'' \<mapsto> 10, ''height'' \<mapsto> 10, ''diameter'' \<mapsto> (150::real)]"
  have n: "lower (strip ''aluminium'') = ''aluminium''" "lower (strip ''milling'') = ''milling''"
    by (simp_all add: lower_def lower_char_def strip_def is_space_def)
  have v: "determine_duty_category ''rectangular'' ?d1 ''aluminium'' ''milling'' = Inr ''light''"
    "determine_duty_category ''rectangular'' ?d2 ''aluminium'' ''milling'' = Inr ''medium''"
    "determine_duty_category ''round'' ?d1 ''aluminium'' ''milling'' = Inr ''light''"
    "determine_duty_category ''round'' ?d2 ''aluminium'' ''milling'' = Inr ''medium''"
    by (simp_all add: determine_duty_category_def geometry_base_def has_keys_def n
        material_adjustment_def operation_adjustment_def)
  note m1 = determine_duty_category_monotone [of ?d1 ?d2 "''aluminium''" "''milling''" 750 10 10]
  note m2 = determine_duty_category_monotone [of ?d1 ?d2 "''aluminium''" "''milling''" "750.01" 10 10]
  note m3 = determine_duty_category_monotone [of ?d1 ?d2 "''aluminium''" "''milling''" 10 1500 10]
  note m4 = determine_duty_category_monotone [of ?d1 ?d2 "''aluminium''" "''milling''" 10 10 "1500.01"]
  have rk: "duty_rank ''light'' \<le> duty_rank ''medium''"
    using m1 by (simp add: has_keys_def v)
  have g1: "geometry_base ''rectangular'' [''length'' \<mapsto> 750, ''breadth'' \<mapsto> 10, ''height'' \<mapsto> 10]
       = Some ''light''"
    using m1 by simp
  have g2: "geometry_base ''rectangular'' [''length'' \<mapsto> 750.01, ''breadth'' \<mapsto> 10, ''height'' \<mapsto> 10]
       = Some ''medium''"
    using m2 by simp
  have g3: "geometry_base ''rectangular'' [''length'' \<mapsto> 10, ''breadth'' \<mapsto> 1500, ''height'' \<mapsto> 10]
       = Some ''medium''"
    using m3 by simp
  have g4: "geometry_base ''rectangular'' [''length'' \<mapsto> 10, ''breadth'' \<mapsto> 10, ''height'' \<mapsto> 1500.01]
       = Some ''heavy''"
    using m4 by simp
  from v rk g1 g2 g3 g4 show ?thesis by blast
qed

text \<open>
  C8 (as the code has it). The volume-score fallback is reached when the shape is not
  rectangular with length, breadth and height present and not round with diameter and
  length present. There the function returns a duty only for a shape other than round
  whose dimensions hold length, breadth and height: the box volume, divided by 1,000,000
  and multiplied by the material factor and the operation factor, gives the score; the
  base is light below 5, medium below 20 and heavy otherwise, and the material and
  operation adjustments follow. In every other case of the fallback (a round shape, or a
  missing box field) the call ends with a KeyError.
\<close>

theorem fallback_amended:
  assumes "\<not> (shape = ''rectangular'' \<and> has_keys dimensions [''length'', ''breadth'', ''height''])"
    and "\<not> (shape = ''round'' \<and> has_keys dimensions [''diameter'', ''length''])"
  shows "(shape \<noteq> ''round'' \<and> has_keys dimensions [''length'', ''breadth'', ''height'']
          \<longrightarrow> determine_duty_category shape dimensions material operation =
                (let volume = the (dimensions ''length'') * the (dimensions ''breadth'')
                                * the (dimensions ''height'');
                     score = (volume / 1000000) * material_factor (lower (strip material))
                                * operation_factor (lower (strip operation));
                     base = (if score < 5 then ''light''
                             else if score < 20 then ''medium''
                             else ''heavy'')
                 in Inr (operation_adjustment (lower (strip operation))
                           (material_adjustment (lower (strip material)) base))))
       \<and> (shape = ''round'' \<or> \<not> has_keys dimensions [''length'', ''breadth'', ''height'']
          \<longrightarrow> (\<exists>k. determine_duty_category shape dimensions material operation
                      = Inl (KeyError k)))"
proof -
  have none: "geometry_base shape dimensions = None"
    using assms by (simp add: geometry_base_None)
  have ok: "shape \<noteq> ''round'' \<and> has_keys dimensions [''length'', ''breadth'', ''height'']
          \<longrightarrow> determine_duty_category shape dimensions material operation =
                (let volume = the (dimensions ''length'') * the (dimensions ''breadth'')
                                * the (dimensions ''height'');
                     score = (volume / 1000000) * material_factor (lower (strip material))
                                * operation_factor (lower (strip operation));
                     base = (if score < 5 then ''light''
                             else if score < 20 then ''medium''
                             else ''heavy'')
                 in Inr (operation_adjustment (lower (strip operation))
                           (material_adjustment (lower (strip material)) base)))"
    unfolding determine_fallback [OF none] fallback_base_def
    by (simp add: fallback_volume_box Let_def)
  have err: "shape = ''round'' \<or> \<not> has_keys dimensions [''length'', ''breadth'', ''height'']
          \<longrightarrow> (\<exists>k. determine_duty_category shape dimensions material operation
                      = Inl (KeyError k))"
  proof
    assume "shape = ''round'' \<or> \<not> has_keys dimensions [''length'', ''breadth'', ''height'']"
    with assms(2) obtain k where "fallback_volume shape dimensions = Inl (KeyError k)"
      using fallback_volume_KeyError by blast
    then show "\<exists>k. determine_duty_category shape dimensions material operation
                      = Inl (KeyError k)"
      unfolding determine_fallback [OF none] fallback_base_def by simp
  qed
  from ok err show ?thesis by blast
qed

theorem fallback_amended_witness:
  "determine_duty_category ''hexagonal''
       [''length'' \<mapsto> 1000, ''breadth'' \<mapsto> 100, ''height'' \<mapsto> 100] ''steel'' ''milling''
     = Inr ''heavy''
   \<and> determine_duty_category ''rectangular''
       [''length'' \<mapsto> 1000, ''breadth'' \<mapsto> 100] ''steel'' ''milling''
     = Inl (KeyError ''height'')"
proof -
  have n: "lower (strip ''steel'') = ''steel''" "lower (strip ''milling'') = ''milling''"
    by (simp_all add: lower_def lower_char_def strip_def is_space_def)
  have f: "material_factor ''steel'' = 3" "operation_factor ''milling'' = 1.5"
    by (simp_all add: material_factor_def operation_factor_def)
  have a: "determine_duty_category ''hexagonal''
       [''length'' \<mapsto> 1000, ''breadth'' \<mapsto> 100, ''height'' \<mapsto> 100] ''steel'' ''milling''
     = Inr ''heavy''"
    using fallback_amended [of "''hexagonal''"
        "[''length'' \<mapsto> 1000, ''breadth'' \<mapsto> 100, ''height'' \<mapsto> 100]" "''steel''" "''milling''"]
    by (simp add: has_keys_def n f Let_def material_adjustment_def operation_adjustment_def
        bump_def order_def)
  have "\<exists>k. determine_duty_category ''rectangular''
       [''length'' \<mapsto> 1000, ''breadth'' \<mapsto> 100] ''steel'' ''milling'' = Inl (KeyError k)"
    using fallback_amended [of "''rectangular''"
        "[''length'' \<mapsto> 1000, ''breadth'' \<mapsto> 100]" "''steel''" "''milling''"]
    by (simp add: has_keys_def)
  moreover have "determine_duty_category ''rectangular''
       [''length'' \<mapsto> 1000, ''breadth'' \<mapsto> 100] ''steel'' ''milling'' = Inl (KeyError ''height'')"
    by (simp add: determine_duty_category_def geometry_base_def has_keys_def fallback_base_def
        fallback_volume_def getitem_def)
  ultimately show ?thesis using a by simp
qed


text \<open>
  C8 as stated fails: with none of the dimension fields present the call ends with a
  KeyError instead of a duty, for a round and for a rectangular shape.
\<close>

theorem fallback_counterexample:
  "\<not> has_keys Map.empty [''length'', ''breadth'', ''height'']
   \<and> \<not> has_keys Map.empty [''diameter'', ''length'']
   \<and> determine_duty_category ''round'' Map.empty ''steel'' ''turning''
       = Inl (KeyError ''diameter'')
   \<and> determine_duty_category ''rectangular'' Map.empty ''steel'' ''turning''
       = Inl (KeyError ''length'')"
  by (simp add: determine_duty_category_def geometry_base_def has_keys_def fallback_base_def
      fallback_volume_def getitem_def)


section \<open>Properties of the rate lookup\<close>

lemma match_score_range: "0 \<le> match_score a b \<and> match_score a b \<le> 2"
  by (simp add: match_score_def)

lemma scored_rows_Cons:
  "scored_rows db opn dun (r # rest) =
     (if rec_op db r = opn \<and> rec_duty db r = dun then r # scored_rows db opn dun rest
      else scored_rows db opn dun rest)"
  by (simp add: scored_rows_def)

lemma scan_candidates_cases:
  assumes "scan_candidates db opn dun mn cands (best, bs) = (best', bs')"
  shows "(best' = best \<and> bs' = bs
           \<and> (\<forall>x \<in> set (scored_rows db opn dun cands). match_score (rec_machine db x) mn \<le> bs))
       \<or> (\<exists>pre r post. scored_rows db opn dun cands = pre @ r # post
             \<and> best' = Some r \<and> bs' = match_score (rec_machine db r) mn
             \<and> bs < match_score (rec_machine db r) mn
             \<and> (\<forall>x \<in> set pre. match_score (rec_machine db x) mn < match_score (rec_machine db r) mn)
             \<and> (\<forall>x \<in> set post. match_score (rec_machine db x) mn \<le> match_score (rec_machine db r) mn))"
  using assms
proof (induction cands arbitrary: best bs)
  case Nil
  then show ?case by (simp add: scored_rows_def)
next
  case (Cons r rest)
  let ?sc = "\<lambda>x. match_score (rec_machine db x) mn"
  let ?found = "\<lambda>rows b. \<exists>pre r' post. rows = pre @ r' # post
             \<and> best' = Some r' \<and> bs' = ?sc r' \<and> b < ?sc r'
             \<and> (\<forall>x \<in> set pre. ?sc x < ?sc r') \<and> (\<forall>x \<in> set post. ?sc x \<le> ?sc r')"
  show ?case
  proof (cases "rec_op db r = opn \<and> rec_duty db r = dun")
    case False
    then have "scan_candidates db opn dun mn rest (best, bs) = (best', bs')"
      using Cons.prems by auto
    moreover have "scored_rows db opn dun (r # rest) = scored_rows db opn dun rest"
      using False by (auto simp add: scored_rows_Cons)
    ultimately show ?thesis
      using Cons.IH [of best bs] by simp
  next
    case True
    then have rows: "scored_rows db opn dun (r # rest) = r # scored_rows db opn dun rest"
      by (simp add: scored_rows_Cons)
    show ?thesis
    proof (cases "?sc r > bs")
      case better: True
      show ?thesis
      proof (cases "?sc r = 2")
        case True
        then have "best' = Some r" "bs' = ?sc r"
          using Cons.prems \<open>rec_op db r = opn \<and> rec_duty db r = dun\<close> better by auto
        moreover have "\<forall>x \<in> set (scored_rows db opn dun rest). ?sc x \<le> ?sc r"
          using True match_score_range by simp
        ultimately have "?found (r # scored_rows db opn dun rest) bs"
          using better by (intro exI [of _ "[]"] exI [of _ r] exI [of _ "scored_rows db opn dun rest"]) simp
        then show ?thesis unfolding rows by blast
      next
        case False
        then have "scan_candidates db opn dun mn rest (Some r, ?sc r) = (best', bs')"
          using Cons.prems \<open>rec_op db r = opn \<and> rec_duty db r = dun\<close> better by auto
        from Cons.IH [OF this] show ?thesis
        proof
          assume same: "best' = Some r \<and> bs' = ?sc r
            \<and> (\<forall>x \<in> set (scored_rows db opn dun rest). ?sc x \<le> ?sc r)"
          then have "?found (r # scored_rows db opn dun rest) bs"
            using better
            by (intro exI [of _ "[]"] exI [of _ r] exI [of _ "scored_rows db opn dun rest"]) simp
          then show ?thesis unfolding rows by blast
        next
          assume "?found (scored_rows db opn dun rest) (?sc r)"
          then obtain pre r' post where f: "scored_rows db opn dun rest = pre @ r' # post"
            "best' = Some r'" "bs' = ?sc r'" "?sc r < ?sc r'"
            "\<forall>x \<in> set pre. ?sc x < ?sc r'" "\<forall>x \<in> set post. ?sc x \<le> ?sc r'"
            by blast
          have "?found (r # scored_rows db opn dun rest) bs"
            using f better
            by (intro exI [of _ "r # pre"] exI [of _ r'] exI [of _ post]) simp
          then show ?thesis unfolding rows by blast
        qed
      qed
    next
      case worse: False
      show ?thesis
      proof (cases "bs = 2")
        case True
        then have "best' = best" "bs' = bs"
          using Cons.prems \<open>rec_op db r = opn \<and> rec_duty db r = dun\<close> worse by auto
        moreover have "\<forall>x \<in> set (scored_rows db opn dun (r # rest)). ?sc x \<le> bs"
          using True match_score_range by simp
        ultimately show ?thesis by blast
      next
        case False
        then have "scan_candidates db opn dun mn rest (best, bs) = (best', bs')"
          using Cons.prems \<open>rec_op db r = opn \<and> rec_duty db r = dun\<close> worse by auto
        from Cons.IH [OF this] show ?thesis
        proof
          assume "best' = best \<and> bs' = bs
            \<and> (\<forall>x \<in> set (scored_rows db opn dun rest). ?sc x \<le> bs)"
          then show ?thesis using worse unfolding rows by simp
        next
          assume "?found (scored_rows db opn dun rest) bs"
          then obtain pre r' post where f: "scored_rows db opn dun rest = pre @ r' # post"
            "best' = Some r'" "bs' = ?sc r'" "bs < ?sc r'"
            "\<forall>x \<in> set pre. ?sc x < ?sc r'" "\<forall>x \<in> set post. ?sc x \<le> ?sc r'"
            by blast
          have "?found (r # scored_rows db opn dun rest) bs"
            using f worse
            by (intro exI [of _ "r # pre"] exI [of _ r'] exI [of _ post]) simp
          then show ?thesis unfolding rows by blast
        qed
      qed
    qed
  qed
qed

lemma scan_candidates_none:
  assumes "scored_rows db opn dun cands = []"
  shows "fst (scan_candidates db opn dun mn cands (None, - 1)) = None"
proof -
  obtain best' bs' where r: "scan_candidates db opn dun mn cands (None, - 1) = (best', bs')"
    by (cases "scan_candidates db opn dun mn cands (None, - 1)")
  from scan_candidates_cases [OF r] assms have "best' = None" by auto
  with r show ?thesis by simp
qed

lemma scan_candidates_first_max:
  assumes "scored_rows db opn dun cands \<noteq> []"
  shows "\<exists>pre r post. scored_rows db opn dun cands = pre @ r # post
           \<and> fst (scan_candidates db opn dun mn cands (None, - 1)) = Some r
           \<and> (\<forall>x \<in> set pre. match_score (rec_machine db x) mn < match_score (rec_machine db r) mn)
           \<and> (\<forall>x \<in> set post. match_score (rec_machine db x) mn \<le> match_score (rec_machine db r) mn)"
proof -
  obtain best' bs' where r: "scan_candidates db opn dun mn cands (None, - 1) = (best', bs')"
    by (cases "scan_candidates db opn dun mn cands (None, - 1)")
  from assms obtain x where x: "x \<in> set (scored_rows db opn dun cands)"
    by (cases "scored_rows db opn dun cands") auto
  have "\<not> match_score (rec_machine db x) mn \<le> - 1"
    using match_score_range [of "rec_machine db x" mn] by simp
  with x have "\<not> (\<forall>x \<in> set (scored_rows db opn dun cands). match_score (rec_machine db x) mn \<le> - 1)"
    by blast
  with scan_candidates_cases [OF r] show ?thesis
    unfolding r by auto
qed

lemma scan_candidates_break:
  assumes "rec_op db r = opn" and "rec_duty db r = dun"
    and "match_score (rec_machine db r) mn = 2" and "bs \<le> 2"
  shows "scan_candidates db opn dun mn (pre @ r # post) (best, bs)
           = scan_candidates db opn dun mn (pre @ [r]) (best, bs)"
  using assms(4)
proof (induction pre arbitrary: best bs)
  case Nil
  then show ?case using assms(1-3) by auto
next
  case (Cons x pre)
  have "match_score (rec_machine db x) mn \<le> 2"
    using match_score_range by simp
  then show ?case
    using Cons.IH Cons.prems by (simp add: Let_def)
qed

lemma match_score_sublist:
  "match_score a b =
     (if a = b then 2
      else if a \<noteq> [] \<and> b \<noteq> [] \<and> (sublist a b \<or> sublist b a) then 1
      else 0)"
  by (simp add: match_score_def contains_sublist)

lemma lookup_fuzzy_selected:
  assumes "\<not> failing db QueryCandidates"
  shows "lookup_fuzzy F db operation duty machine_name =
           Inr (case fst (scan_candidates db (norm_str (Some operation)) (norm_str (Some duty))
                            (norm_str (Some machine_name)) (fuzzy_candidates db operation)
                            (None, - 1)) of
                  None \<Rightarrow> None
                | Some best \<Rightarrow>
                    (case MHR_machine_hr_rate best of None \<Rightarrow> None | Some txt \<Rightarrow> F txt))"
  using assms
  by (simp add: lookup_fuzzy_def run_query_def Let_def split: option.splits)

lemma lookup_fuzzy_failing:
  assumes "failing db QueryCandidates"
  shows "lookup_fuzzy F db operation duty machine_name = Inl DbError"
  using assms by (simp add: lookup_fuzzy_def run_query_def Let_def)

lemma lookup_by_ids_all_failing:
  assumes "\<forall>q. failing db q"
  shows "\<forall>v. lookup_by_ids F db operation duty machine_id op_type_id duty_id \<noteq> Inr (Some v)"
  using assms
  by (auto simp add: lookup_by_ids_def resolve_op_id_def query_mhr_def run_query_def Let_def
      split: option.splits sum.splits)

lemma find_filter_first:
  "filter P xs = y # ys \<Longrightarrow> find P xs = Some y"
  by (induction xs) (auto split: if_splits)


lemma lookup_by_ids_first:
  assumes "resolve_op_id db operation op_type_id = Inr (Some op_id)"
    and "(if duty_id \<noteq> None then duty_id else resolve_duty_id db duty) = Some du_id"
    and "machine_id = Some m_id"
    and "\<not> failing db QueryMHR"
    and "filter (\<lambda>r. MHR_op_type_id r = Some op_id \<and> MHR_duty_id r = Some du_id
                     \<and> MHR_machine_id r = Some m_id) (mhr_table db) = first # duplicates"
  shows "lookup_by_ids F db operation duty machine_id op_type_id duty_id =
           (case MHR_machine_hr_rate first of
              None \<Rightarrow> Inr None
            | Some txt \<Rightarrow> (case F txt of None \<Rightarrow> Inl FloatValueError | Some v \<Rightarrow> Inr (Some v)))"
proof -
  have "query_mhr db op_id du_id m_id = Inr (Some first)"
    using assms(4) find_filter_first [OF assms(5)]
    by (simp add: query_mhr_def run_query_def)
  then show ?thesis
    using assms(1-3) by (simp add: lookup_by_ids_def Let_def)
qed

text \<open>
  C3. \<open>get_machine_hour_rate\<close> ends with the "not configured" error exactly when neither
  the ID-based tier nor the fuzzy tier resolves a rate. It ends with no other error, and a
  rate it returns is one that a tier resolved, never a default. An exception raised inside
  a tier is absorbed and counts as no match: after one in the first tier the result is
  decided by the second tier, after one in the second tier (the first having resolved
  nothing) the result is the "not configured" error, and a database whose every query
  fails gives the "not configured" error.
\<close>

theorem get_machine_hour_rate_errors:
  "(get_machine_hour_rate F db operation duty machine_name machine_id op_type_id duty_id
        = Inl NotConfigured
      \<longleftrightarrow> (\<forall>v. lookup_by_ids F db operation duty machine_id op_type_id duty_id \<noteq> Inr (Some v))
          \<and> (\<forall>v. lookup_fuzzy F db operation duty machine_name \<noteq> Inr (Some v)))
   \<and> (\<forall>e. get_machine_hour_rate F db operation duty machine_name machine_id op_type_id duty_id
             = Inl e \<longrightarrow> e = NotConfigured)
   \<and> (\<forall>v. get_machine_hour_rate F db operation duty machine_name machine_id op_type_id duty_id
             = Inr v
          \<longrightarrow> lookup_by_ids F db operation duty machine_id op_type_id duty_id = Inr (Some v)
              \<or> lookup_fuzzy F db operation duty machine_name = Inr (Some v))
   \<and> ((\<exists>e. lookup_by_ids F db operation duty machine_id op_type_id duty_id = Inl e)
      \<longrightarrow> get_machine_hour_rate F db operation duty machine_name machine_id op_type_id duty_id
            = (case lookup_fuzzy F db operation duty machine_name of
                 Inr (Some v) \<Rightarrow> Inr v
               | _ \<Rightarrow> Inl NotConfigured))
   \<and> ((\<forall>v. lookup_by_ids F db operation duty machine_id op_type_id duty_id \<noteq> Inr (Some v))
        \<and> (\<exists>e. lookup_fuzzy F db operation duty machine_name = Inl e)
      \<longrightarrow> get_machine_hour_rate F db operation duty machine_name machine_id op_type_id duty_id
            = Inl NotConfigured)
   \<and> ((\<forall>q. failing db q)
      \<longrightarrow> get_machine_hour_rate F db operation duty machine_name machine_id op_type_id duty_id
            = Inl NotConfigured)"
proof -
  let ?t1 = "lookup_by_ids F db operation duty machine_id op_type_id duty_id"
  let ?t2 = "lookup_fuzzy F db operation duty machine_name"
  let ?res = "get_machine_hour_rate F db operation duty machine_name machine_id op_type_id duty_id"
  have res: "?res = (case ?t1 of
                       Inr (Some v) \<Rightarrow> Inr v
                     | _ \<Rightarrow> (case ?t2 of Inr (Some v) \<Rightarrow> Inr v | _ \<Rightarrow> Inl NotConfigured))"
    by (simp add: get_machine_hour_rate_def absorb_def split: sum.splits option.splits)
  have iff: "?res = Inl NotConfigured \<longleftrightarrow> (\<forall>v. ?t1 \<noteq> Inr (Some v)) \<and> (\<forall>v. ?t2 \<noteq> Inr (Some v))"
    unfolding res by (auto split: sum.splits option.splits)
  have only: "\<forall>e. ?res = Inl e \<longrightarrow> e = NotConfigured"
    unfolding res by (auto split: sum.splits option.splits)
  have from_tier: "\<forall>v. ?res = Inr v \<longrightarrow> ?t1 = Inr (Some v) \<or> ?t2 = Inr (Some v)"
    unfolding res by (auto split: sum.splits option.splits)
  have absorb1: "(\<exists>e. ?t1 = Inl e)
      \<longrightarrow> ?res = (case ?t2 of Inr (Some v) \<Rightarrow> Inr v | _ \<Rightarrow> Inl NotConfigured)"
    unfolding res by (auto split: sum.splits option.splits)
  have absorb2: "(\<forall>v. ?t1 \<noteq> Inr (Some v)) \<and> (\<exists>e. ?t2 = Inl e) \<longrightarrow> ?res = Inl NotConfigured"
    unfolding res by (auto split: sum.splits option.splits)
  have broken: "(\<forall>q. failing db q) \<longrightarrow> ?res = Inl NotConfigured"
  proof
    assume f: "\<forall>q. failing db q"
    then have "?t2 = Inl DbError"
      by (simp add: lookup_fuzzy_failing)
    moreover have "\<forall>v. ?t1 \<noteq> Inr (Some v)"
      using f by (rule lookup_by_ids_all_failing)
    ultimately show "?res = Inl NotConfigured"
      unfolding iff by simp
  qed
  from iff only from_tier absorb1 absorb2 broken show ?thesis
    by blast
qed

theorem get_machine_hour_rate_errors_witness:
  "lookup_by_ids digits_float mhr_failing_db ''turning'' ''medium'' (Some 1) (Some 1) (Some 1)
       = Inl DbError
   \<and> get_machine_hour_rate digits_float mhr_failing_db ''turning'' ''medium'' ''CNC Lathe''
       (Some 1) (Some 1) (Some 1) = Inr 450
   \<and> lookup_fuzzy digits_float failing_db ''turning'' ''medium'' ''CNC Lathe'' = Inl DbError
   \<and> get_machine_hour_rate digits_float failing_db ''turning'' ''medium'' ''CNC Lathe''
       (Some 1) (Some 1) (Some 1) = Inl NotConfigured"
proof -
  have t1: "lookup_by_ids digits_float mhr_failing_db ''turning'' ''medium'' (Some 1) (Some 1) (Some 1)
       = Inl DbError"
    by code_simp
  have t2: "lookup_fuzzy digits_float mhr_failing_db ''turning'' ''medium'' ''CNC Lathe''
       = Inr (Some 450)"
    by code_simp
  note absorbed = get_machine_hour_rate_errors [of digits_float mhr_failing_db "''turning''"
      "''medium''" "''CNC Lathe''" "Some 1" "Some 1" "Some 1",
      THEN conjunct2, THEN conjunct2, THEN conjunct2, THEN conjunct1]
  have a: "get_machine_hour_rate digits_float mhr_failing_db ''turning'' ''medium'' ''CNC Lathe''
       (Some 1) (Some 1) (Some 1) = Inr 450"
    using absorbed unfolding t1 t2 by simp
  have f: "\<forall>q. failing failing_db q"
    by (simp add: failing_db_def)
  have t3: "lookup_fuzzy digits_float failing_db ''turning'' ''medium'' ''CNC Lathe'' = Inl DbError"
    using f by (simp add: lookup_fuzzy_failing)
  note broken = get_machine_hour_rate_errors [of digits_float failing_db "''turning''"
      "''medium''" "''CNC Lathe''" "Some 1" "Some 1" "Some 1",
      THEN conjunct2, THEN conjunct2, THEN conjunct2, THEN conjunct2, THEN conjunct2]
  have b: "get_machine_hour_rate digits_float failing_db ''turning'' ''medium'' ''CNC Lathe''
       (Some 1) (Some 1) (Some 1) = Inl NotConfigured"
    using broken f by (rule mp)
  from t1 a t3 b show ?thesis by simp
qed

text \<open>
  C4 (as the code has it). In the fuzzy tier a scored row gets 2 when its normalized
  machine name equals the request's, 1 when both names are non-empty and one contains the
  other as a substring, and 0 otherwise. With the query succeeding, no scored row gives no
  rate; otherwise the selected row is the first of the highest-scoring rows (every row
  before it scores strictly less, every row after it at most as much) and its rate, when
  present and numeric, is returned. A row of score 2 ends the loop: the rows after it do
  not matter. With one MHR row for (turning, medium, "CNC Lathe"), a request for
  "CNC Lathe - 3 Axis" whose machine id has no MHR row gets that row's rate, by a score
  of 1.
\<close>

theorem fuzzy_selection_amended:
  "match_score a b =
       (if a = b then 2
        else if a \<noteq> [] \<and> b \<noteq> [] \<and> (sublist a b \<or> sublist b a) then 1
        else 0)
   \<and> (\<not> failing db QueryCandidates
        \<and> scored_rows db (norm_str (Some operation)) (norm_str (Some duty))
             (fuzzy_candidates db operation) = []
      \<longrightarrow> lookup_fuzzy F db operation duty machine_name = Inr None)
   \<and> (\<not> failing db QueryCandidates
        \<and> scored_rows db (norm_str (Some operation)) (norm_str (Some duty))
             (fuzzy_candidates db operation) \<noteq> []
      \<longrightarrow> (\<exists>pre best post.
             scored_rows db (norm_str (Some operation)) (norm_str (Some duty))
               (fuzzy_candidates db operation) = pre @ best # post
             \<and> (\<forall>x \<in> set pre. match_score (rec_machine db x) (norm_str (Some machine_name))
                                < match_score (rec_machine db best) (norm_str (Some machine_name)))
             \<and> (\<forall>x \<in> set post. match_score (rec_machine db x) (norm_str (Some machine_name))
                                \<le> match_score (rec_machine db best) (norm_str (Some machine_name)))
             \<and> lookup_fuzzy F db operation duty machine_name =
                 Inr (case MHR_machine_hr_rate best of None \<Rightarrow> None | Some txt \<Rightarrow> F txt)))
   \<and> (rec_op db r = op_norm \<and> rec_duty db r = duty_norm
        \<and> match_score (rec_machine db r) machine_norm = 2
      \<longrightarrow> scan_candidates db op_norm duty_norm machine_norm (before @ r # after) (None, - 1)
            = scan_candidates db op_norm duty_norm machine_norm (before @ [r]) (None, - 1))
   \<and> match_score (norm_str (Some ''CNC Lathe'')) (norm_str (Some ''CNC Lathe - 3 Axis'')) = 1
   \<and> get_machine_hour_rate digits_float lathe_db ''turning'' ''medium'' ''CNC Lathe - 3 Axis''
        (Some 2) None None = Inr 450"
proof -
  let ?rows = "scored_rows db (norm_str (Some operation)) (norm_str (Some duty))
             (fuzzy_candidates db operation)"
  have none: "\<not> failing db QueryCandidates \<and> ?rows = []
      \<longrightarrow> lookup_fuzzy F db operation duty machine_name = Inr None"
    by (simp add: lookup_fuzzy_selected scan_candidates_none)
  have some: "\<not> failing db QueryCandidates \<and> ?rows \<noteq> []
      \<longrightarrow> (\<exists>pre best post. ?rows = pre @ best # post
             \<and> (\<forall>x \<in> set pre. match_score (rec_machine db x) (norm_str (Some machine_name))
                                < match_score (rec_machine db best) (norm_str (Some machine_name)))
             \<and> (\<forall>x \<in> set post. match_score (rec_machine db x) (norm_str (Some machine_name))
                                \<le> match_score (rec_machine db best) (norm_str (Some machine_name)))
             \<and> lookup_fuzzy F db operation duty machine_name =
                 Inr (case MHR_machine_hr_rate best of None \<Rightarrow> None | Some txt \<Rightarrow> F txt))"
  proof
    assume a: "\<not> failing db QueryCandidates \<and> ?rows \<noteq> []"
    then obtain pre best post where f: "?rows = pre @ best # post"
      "fst (scan_candidates db (norm_str (Some operation)) (norm_str (Some duty))
              (norm_str (Some machine_name)) (fuzzy_candidates db operation) (None, - 1)) = Some best"
      "\<forall>x \<in> set pre. match_score (rec_machine db x) (norm_str (Some machine_name))
                                < match_score (rec_machine db best) (norm_str (Some machine_name))"
      "\<forall>x \<in> set post. match_score (rec_machine db x) (norm_str (Some machine_name))
                                \<le> match_score (rec_machine db best) (norm_str (Some machine_name))"
      using scan_candidates_first_max [of db "norm_str (Some operation)" "norm_str (Some duty)"
          "fuzzy_candidates db operation" "norm_str (Some machine_name)"]
      by blast
    have "lookup_fuzzy F db operation duty machine_name =
                 Inr (case MHR_machine_hr_rate best of None \<Rightarrow> None | Some txt \<Rightarrow> F txt)"
      using a by (simp add: lookup_fuzzy_selected f(2))
    with f(1,3,4) show "\<exists>pre best post. ?rows = pre @ best # post
             \<and> (\<forall>x \<in> set pre. match_score (rec_machine db x) (norm_str (Some machine_name))
                                < match_score (rec_machine db best) (norm_str (Some machine_name)))
             \<and> (\<forall>x \<in> set post. match_score (rec_machine db x) (norm_str (Some machine_name))
                                \<le> match_score (rec_machine db best) (norm_str (Some machine_name)))
             \<and> lookup_fuzzy F db operation duty machine_name =
                 Inr (case MHR_machine_hr_rate best of None \<Rightarrow> None | Some txt \<Rightarrow> F txt)"
      by blast
  qed
  have stop: "rec_op db r = op_norm \<and> rec_duty db r = duty_norm
        \<and> match_score (rec_machine db r) machine_norm = 2
      \<longrightarrow> scan_candidates db op_norm duty_norm machine_norm (before @ r # after) (None, - 1)
            = scan_candidates db op_norm duty_norm machine_norm (before @ [r]) (None, - 1)"
    using scan_candidates_break [of db r op_norm duty_norm machine_norm "- 1" before after None]
    by simp
  have ex1: "match_score (norm_str (Some ''CNC Lathe'')) (norm_str (Some ''CNC Lathe - 3 Axis'')) = 1"
    by code_simp
  have ex2: "get_machine_hour_rate digits_float lathe_db ''turning'' ''medium'' ''CNC Lathe - 3 Axis''
        (Some 2) None None = Inr 450"
    by code_simp
  from match_score_sublist [of a b] none some stop ex1 ex2 show ?thesis
    by blast
qed

theorem fuzzy_selection_amended_witness:
  "\<not> failing lathe_db QueryCandidates
   \<and> scored_rows lathe_db (norm_str (Some ''turning'')) (norm_str (Some ''medium''))
        (fuzzy_candidates lathe_db ''turning'') = mhr_table lathe_db
   \<and> mhr_table lathe_db \<noteq> []
   \<and> lookup_fuzzy digits_float lathe_db ''turning'' ''medium'' ''CNC Lathe - 3 Axis''
        = Inr (Some 450)
   \<and> (\<exists>best \<in> set (mhr_table lathe_db).
        lookup_fuzzy digits_float lathe_db ''turning'' ''medium'' ''CNC Lathe - 3 Axis''
          = Inr (case MHR_machine_hr_rate best of None \<Rightarrow> None | Some txt \<Rightarrow> digits_float txt))"
proof -
  have nf: "\<not> failing lathe_db QueryCandidates"
    by (simp add: lathe_db_def)
  have rows: "scored_rows lathe_db (norm_str (Some ''turning'')) (norm_str (Some ''medium''))
        (fuzzy_candidates lathe_db ''turning'') = mhr_table lathe_db"
    by code_simp
  have ne: "mhr_table lathe_db \<noteq> []"
    by (simp add: lathe_db_def)
  have v: "lookup_fuzzy digits_float lathe_db ''turning'' ''medium'' ''CNC Lathe - 3 Axis''
        = Inr (Some 450)"
    by code_simp
  note sel = fuzzy_selection_amended [of "[]" "[]" lathe_db "''turning''" "''medium''"
      digits_float "''CNC Lathe - 3 Axis''" "mhr_table lathe_db ! 0" "[]" "[]" "[]" "[]" "[]",
      THEN conjunct2, THEN conjunct2, THEN conjunct1]
  have "\<exists>pre best post. mhr_table lathe_db = pre @ best # post
      \<and> lookup_fuzzy digits_float lathe_db ''turning'' ''medium'' ''CNC Lathe - 3 Axis''
          = Inr (case MHR_machine_hr_rate best of None \<Rightarrow> None | Some txt \<Rightarrow> digits_float txt)"
    using sel nf ne unfolding rows by blast
  then have "\<exists>best \<in> set (mhr_table lathe_db).
        lookup_fuzzy digits_float lathe_db ''turning'' ''medium'' ''CNC Lathe - 3 Axis''
          = Inr (case MHR_machine_hr_rate best of None \<Rightarrow> None | Some txt \<Rightarrow> digits_float txt)"
    by auto
  with nf rows ne v show ?thesis by blast
qed

text \<open>
  C4 as stated fails for an empty normalized name: a machine named "-" normalizes to the
  empty string, which is a substring of every name, yet its row scores 0, not 1, and the
  later row for "CNC Lathe" (score 1) is selected ahead of it.
\<close>

theorem fuzzy_selection_counterexample:
  "rec_machine dash_db (mhr_table dash_db ! 0) = []
   \<and> sublist (rec_machine dash_db (mhr_table dash_db ! 0))
        (norm_str (Some ''CNC Lathe - 3 Axis''))
   \<and> match_score (rec_machine dash_db (mhr_table dash_db ! 0))
        (norm_str (Some ''CNC Lathe - 3 Axis'')) = 0
   \<and> match_score (rec_machine dash_db (mhr_table dash_db ! 1))
        (norm_str (Some ''CNC Lathe - 3 Axis'')) = 1
   \<and> get_machine_hour_rate digits_float dash_db ''turning'' ''medium'' ''CNC Lathe - 3 Axis''
        None None None = Inr 450"
proof -
  have e: "rec_machine dash_db (mhr_table dash_db ! 0) = []"
    by code_simp
  have s0: "match_score (rec_machine dash_db (mhr_table dash_db ! 0))
        (norm_str (Some ''CNC Lathe - 3 Axis'')) = 0"
    by code_simp
  have s1: "match_score (rec_machine dash_db (mhr_table dash_db ! 1))
        (norm_str (Some ''CNC Lathe - 3 Axis'')) = 1"
    by code_simp
  have r: "get_machine_hour_rate digits_float dash_db ''turning'' ''medium'' ''CNC Lathe - 3 Axis''
        None None None = Inr 450"
    by code_simp
  from e s0 s1 r show ?thesis by simp
qed




text \<open>
  C6 (as the code has it). In the first tier, when the operation type id, the duty id and
  the machine id all resolve, the MHR query succeeds and at least one MHR row matches the
  triple, the first matching row decides, whatever rows for the same triple follow it: if
  its rate is present and \<^verbatim>\<open>float\<close> reads it, that rate is returned; if its rate is NULL
  or \<^verbatim>\<open>float\<close> rejects it, the result is left to the fuzzy tier.
\<close>

theorem first_match_amended:
  assumes "resolve_op_id db operation op_type_id = Inr (Some op_id)"
    and "(if duty_id \<noteq> None then duty_id else resolve_duty_id db duty) = Some du_id"
    and "machine_id = Some m_id"
    and "\<not> failing db QueryMHR"
    and "filter (\<lambda>r. MHR_op_type_id r = Some op_id \<and> MHR_duty_id r = Some du_id
                     \<and> MHR_machine_id r = Some m_id) (mhr_table db) = first # duplicates"
  shows "(MHR_machine_hr_rate first = Some txt \<and> F txt = Some v
          \<longrightarrow> get_machine_hour_rate F db operation duty machine_name machine_id op_type_id duty_id
                = Inr v)
       \<and> (MHR_machine_hr_rate first = None
            \<or> (\<exists>t. MHR_machine_hr_rate first = Some t \<and> F t = None)
          \<longrightarrow> get_machine_hour_rate F db operation duty machine_name machine_id op_type_id duty_id
                = (case lookup_fuzzy F db operation duty machine_name of
                     Inr (Some w) \<Rightarrow> Inr w
                   | _ \<Rightarrow> Inl NotConfigured))"
proof -
  note tier1 = lookup_by_ids_first [OF assms, of F]
  have ok: "MHR_machine_hr_rate first = Some txt \<and> F txt = Some v
          \<longrightarrow> get_machine_hour_rate F db operation duty machine_name machine_id op_type_id duty_id
                = Inr v"
    by (simp add: get_machine_hour_rate_def absorb_def tier1)
  have fall: "MHR_machine_hr_rate first = None
            \<or> (\<exists>t. MHR_machine_hr_rate first = Some t \<and> F t = None)
          \<longrightarrow> get_machine_hour_rate F db operation duty machine_name machine_id op_type_id duty_id
                = (case lookup_fuzzy F db operation duty machine_name of
                     Inr (Some w) \<Rightarrow> Inr w
                   | _ \<Rightarrow> Inl NotConfigured)"
    by (auto simp add: get_machine_hour_rate_def absorb_def tier1 split: sum.splits option.splits)
  from ok fall show ?thesis by blast
qed

theorem first_match_amended_witness:
  "resolve_op_id duplicate_db ''turning'' None = Inr (Some 1)
   \<and> resolve_duty_id duplicate_db ''Medium Duty'' = Some 1
   \<and> \<not> failing duplicate_db QueryMHR
   \<and> filter (\<lambda>r. MHR_op_type_id r = Some 1 \<and> MHR_duty_id r = Some 1 \<and> MHR_machine_id r = Some 1)
        (mhr_table duplicate_db) = mhr_table duplicate_db
   \<and> MHR_machine_hr_rate (mhr_table duplicate_db ! 0) = Some ''450''
   \<and> MHR_machine_hr_rate (mhr_table duplicate_db ! 1) = Some ''999''
   \<and> digits_float ''450'' = Some 450
   \<and> get_machine_hour_rate digits_float duplicate_db ''turning'' ''Medium Duty'' ''CNC Lathe''
        (Some 1) None None = Inr 450"
proof -
  let ?first = "\<lparr> MHR_id = 1, MHR_op_type_id = Some 1, MHR_duty_id = Some 1,
                  MHR_machine_id = Some 1, MHR_machine_hr_rate = Some ''450'' \<rparr>"
  let ?second = "\<lparr> MHR_id = 2, MHR_op_type_id = Some 1, MHR_duty_id = Some 1,
                   MHR_machine_id = Some 1, MHR_machine_hr_rate = Some ''999'' \<rparr>"
  have op: "resolve_op_id duplicate_db ''turning'' None = Inr (Some 1)"
    by code_simp
  have du: "resolve_duty_id duplicate_db ''Medium Duty'' = Some 1"
    by code_simp
  have du': "(if (None :: int option) \<noteq> None then None
              else resolve_duty_id duplicate_db ''Medium Duty'') = Some 1"
    using du by simp
  have nf: "\<not> failing duplicate_db QueryMHR"
    by (simp add: duplicate_db_def lathe_db_def)
  have tbl: "mhr_table duplicate_db = [?first, ?second]"
    by (simp add: duplicate_db_def)
  have rows: "filter (\<lambda>r. MHR_op_type_id r = Some 1 \<and> MHR_duty_id r = Some 1
                         \<and> MHR_machine_id r = Some 1) (mhr_table duplicate_db)
                = ?first # [?second]"
    unfolding tbl by simp
  have fl: "digits_float ''450'' = Some 450"
    by code_simp
  have rate: "MHR_machine_hr_rate ?first = Some ''450'' \<and> digits_float ''450'' = Some 450"
    using fl by simp
  note inst = first_match_amended [OF op du' refl nf rows, of "''450''" digits_float 450
      "''CNC Lathe''", THEN conjunct1]
  have res: "get_machine_hour_rate digits_float duplicate_db ''turning'' ''Medium Duty''
        ''CNC Lathe'' (Some 1) None None = Inr 450"
    using inst rate by (rule mp)
  have all: "filter (\<lambda>r. MHR_op_type_id r = Some 1 \<and> MHR_duty_id r = Some 1
                        \<and> MHR_machine_id r = Some 1) (mhr_table duplicate_db)
               = mhr_table duplicate_db"
    unfolding tbl by simp
  have r0: "MHR_machine_hr_rate (mhr_table duplicate_db ! 0) = Some ''450''"
    and r1: "MHR_machine_hr_rate (mhr_table duplicate_db ! 1) = Some ''999''"
    unfolding tbl by simp_all
  from op du nf all r0 r1 fl res show ?thesis by simp
qed

text \<open>
  C6 as stated fails when the first matching row has no rate: all three ids resolve and one
  row matches, yet the call ends with the "not configured" error.
\<close>

theorem first_match_counterexample:
  "resolve_op_id null_rate_db ''turning'' (Some 1) = Inr (Some 1)
   \<and> query_mhr null_rate_db 1 1 1 = Inr (Some (mhr_table null_rate_db ! 0))
   \<and> MHR_machine_hr_rate (mhr_table null_rate_db ! 0) = None
   \<and> get_machine_hour_rate digits_float null_rate_db ''turning'' ''medium'' ''CNC Lathe''
        (Some 1) (Some 1) (Some 1) = Inl NotConfigured"
proof -
  have a: "resolve_op_id null_rate_db ''turning'' (Some 1) = Inr (Some 1)"
    by code_simp
  have b: "query_mhr null_rate_db 1 1 1 = Inr (Some (mhr_table null_rate_db ! 0))"
    by code_simp
  have c: "MHR_machine_hr_rate (mhr_table null_rate_db ! 0) = None"
    by code_simp
  have d: "get_machine_hour_rate digits_float null_rate_db ''turning'' ''medium'' ''CNC Lathe''
        (Some 1) (Some 1) (Some 1) = Inl NotConfigured"
    by code_simp
  from a b c d show ?thesis by simp
qed

end
